theory Spec2Isabelle
  imports Complex_Main "HOL-Library.Sublist"
begin

section \<open>Python values and indexing\<close>

text \<open>
  The exceptions of Python that the modelled code can raise. Every raise of the source is
  a branch of the model returning \<open>Inl\<close>.
\<close>

datatype py_error = IndexError | KeyError | TypeError | ArgTypeError | ZeroDivisionError

text \<open>
  \<open>TypeError\<close> is the error of a subscript on a value that does not support it;
  \<open>ArgTypeError\<close> is Python's TypeError too, raised by a widget method that is handed a
  value of the wrong type. They are kept apart by where they arise.
\<close>

definition py_bind :: "py_error + 'a \<Rightarrow> ('a \<Rightarrow> py_error + 'b) \<Rightarrow> py_error + 'b" where
  "py_bind m f = (case m of Inl e \<Rightarrow> Inl e | Inr x \<Rightarrow> f x)"

text \<open>
  Python list indexing: an index \<open>i\<close> with \<open>0 \<le> i < n\<close> reads position \<open>i\<close>, an index with
  \<open>-n \<le> i < 0\<close> counts from the end, every other index raises IndexError.
\<close>

definition py_norm_index :: "nat \<Rightarrow> int \<Rightarrow> nat option" where
  "py_norm_index n i =
     (if 0 \<le> i \<and> i < int n then Some (nat i)
      else if - int n \<le> i \<and> i < 0 then Some (nat (int n + i))
      else None)"

definition py_getitem :: "'a list \<Rightarrow> int \<Rightarrow> py_error + 'a" where
  "py_getitem xs i =
     (case py_norm_index (length xs) i of
        None \<Rightarrow> Inl IndexError
      | Some j \<Rightarrow> Inr (xs ! j))"

text \<open>Python's \<open>int(x)\<close> on a number truncates towards zero.\<close>

definition py_int :: "rat \<Rightarrow> int" where
  "py_int x = (if 0 \<le> x then \<lfloor>x\<rfloor> else \<lceil>x\<rceil>)"

section \<open>ServoController\<close>

text \<open>
  The PCA9685 board is present (\<open>Some\<close> of the duty cycles of its channels) or absent
  (\<open>None\<close>, the simulated mode). The calibration constants are set once in \<open>__init__\<close>.
  Angles are exact rationals: Python computes the same expression in floating point.
\<close>

record ServoController =
  pca :: "int list option"

definition SERVO_MIN_US :: rat where "SERVO_MIN_US = 500"
definition SERVO_MAX_US :: rat where "SERVO_MAX_US = 2500"
definition PWM_PERIOD_US :: rat where "PWM_PERIOD_US = 20000"

definition clamp_angle :: "rat \<Rightarrow> rat" where
  "clamp_angle angle = max 0 (min 180 angle)"

definition pulse_us :: "rat \<Rightarrow> rat" where
  "pulse_us angle =
     SERVO_MIN_US + (clamp_angle angle / 180) * (SERVO_MAX_US - SERVO_MIN_US)"

definition duty_cycle :: "rat \<Rightarrow> int" where
  "duty_cycle angle = py_int ((pulse_us angle / PWM_PERIOD_US) * 65535)"

definition set_servo_angle :: "ServoController \<Rightarrow> int \<Rightarrow> rat \<Rightarrow> ServoController" where
  "set_servo_angle sc channel angle =
     (case pca sc of
        None \<Rightarrow> sc
      | Some chans \<Rightarrow>
          (case py_norm_index (length chans) channel of
             None \<Rightarrow> sc
           | Some j \<Rightarrow> sc\<lparr>pca := Some (chans[j := duty_cycle angle])\<rparr>))"

definition RIGHT_HAND :: int where "RIGHT_HAND = 0"
definition LEFT_HAND :: int where "LEFT_HAND = 1"

definition right_hand :: "ServoController \<Rightarrow> rat \<Rightarrow> ServoController" where
  "right_hand sc angle = set_servo_angle sc RIGHT_HAND angle"

definition left_hand :: "ServoController \<Rightarrow> rat \<Rightarrow> ServoController" where
  "left_hand sc angle = set_servo_angle sc LEFT_HAND angle"

definition both_hands :: "rat \<Rightarrow> ServoController \<Rightarrow> ServoController" where
  "both_hands angle sc = left_hand (right_hand sc angle) angle"

definition quiz_ready_pose :: "ServoController \<Rightarrow> ServoController" where
  "quiz_ready_pose sc = (case pca sc of None \<Rightarrow> sc | Some _ \<Rightarrow> both_hands 90 sc)"

text \<open>\<open>range(40, 121, 2)\<close> and \<open>range(120, 39, -2)\<close>.\<close>

definition sweep_up :: "rat list" where
  "sweep_up = map (\<lambda>k. 40 + 2 * of_nat k) [0..<41]"

definition sweep_down :: "rat list" where
  "sweep_down = map (\<lambda>k. 120 - 2 * of_nat k) [0..<41]"

definition correct_answer_gesture :: "ServoController \<Rightarrow> ServoController" where
  "correct_answer_gesture sc =
     (case pca sc of
        None \<Rightarrow> sc
      | Some _ \<Rightarrow> quiz_ready_pose (fold both_hands sweep_down (fold both_hands sweep_up sc)))"

definition wrong_answer_gesture :: "ServoController \<Rightarrow> ServoController" where
  "wrong_answer_gesture sc =
     (case pca sc of
        None \<Rightarrow> sc
      | Some _ \<Rightarrow> quiz_ready_pose (both_hands 90 (both_hands 180 sc)))"

section \<open>Values decoded from JSON\<close>

text \<open>
  \<open>json.loads\<close> returns None, a bool, an int, a float, a str, a list or a dict with string
  keys. A dict is kept as the list of its items.
\<close>

datatype json =
    JNull
  | JBool bool
  | JInt int
  | JFloat rat
  | JStr string
  | JList "json list"
  | JDict "(string \<times> json) list"

text \<open>\<open>obj[key]\<close> with a string key: only a dict supports it.\<close>

fun getitem_str :: "json \<Rightarrow> string \<Rightarrow> py_error + json" where
  "getitem_str (JDict kvs) k = (case map_of kvs k of None \<Rightarrow> Inl KeyError | Some v \<Rightarrow> Inr v)"
| "getitem_str _ k = Inl TypeError"

text \<open>
  \<open>obj[i]\<close> with an integer: a list gives its element, a string its character as a string
  of length one; a dict decoded from JSON has no integer key.
\<close>

fun getitem_int :: "json \<Rightarrow> int \<Rightarrow> py_error + json" where
  "getitem_int (JList xs) i = py_getitem xs i"
| "getitem_int (JStr cs) i = py_bind (py_getitem cs i) (\<lambda>c. Inr (JStr [c]))"
| "getitem_int (JDict kvs) i = Inl KeyError"
| "getitem_int _ i = Inl TypeError"

text \<open>A widget's \<open>setText\<close> accepts a str only.\<close>

fun as_text :: "json \<Rightarrow> py_error + string" where
  "as_text (JStr cs) = Inr cs"
| "as_text _ = Inl ArgTypeError"

text \<open>A list index must be an int; bool is a subclass of int in Python.\<close>

fun as_index :: "json \<Rightarrow> py_error + int" where
  "as_index (JInt n) = Inr n"
| "as_index (JBool b) = Inr (if b then 1 else 0)"
| "as_index _ = Inl TypeError"

text \<open>Python's \<open>==\<close> between an int and a decoded value.\<close>

fun py_eq_int :: "int \<Rightarrow> json \<Rightarrow> bool" where
  "py_eq_int u (JInt n) = (u = n)"
| "py_eq_int u (JBool b) = (u = (if b then 1 else 0))"
| "py_eq_int u (JFloat r) = (of_int u = r)"
| "py_eq_int u _ = False"

text \<open>\<open>str(n)\<close> of an int, as an f-string formats it.\<close>

definition digit_char :: "nat \<Rightarrow> char" where
  "digit_char d = ''0123456789'' ! d"

fun str_nat :: "nat \<Rightarrow> string" where
  "str_nat n = (if n < 10 then [digit_char n] else str_nat (n div 10) @ [digit_char (n mod 10)])"

declare str_nat.simps [simp del]

definition str_int :: "int \<Rightarrow> string" where
  "str_int i = (if i < 0 then CHR ''-'' # str_nat (nat (- i)) else str_nat (nat i))"

section \<open>The state of TeacherGUI and of what it drives\<close>

text \<open>\<open>pygame.mixer.music\<close>: one stream, idle, playing a file or paused in it.\<close>

datatype music = Idle | Playing string | Paused string

datatype button_style = StyleNeutral | StyleCorrect | StyleWrong

record QPushButton =
  btn_text :: string
  btn_enabled :: bool
  btn_style :: button_style

datatype voice_btn_text = BtnListen | BtnPause | BtnResume | BtnGenerating | BtnError

datatype text_chunk = PlainText string | ErrorHtml string

text \<open>
  A ListenWorker thread: \<open>lw_is_running\<close> is the flag that \<open>stop\<close> clears and the loop
  reads; \<open>lw_alive\<close> is \<open>QThread.isRunning()\<close>, true until \<open>run\<close> has returned and the
  microphone is released.
\<close>

record ListenWorker =
  lw_is_running :: bool
  lw_alive :: bool

text \<open>The slot that is connected to the signal \<open>finished\<close> of a VoiceWorker.\<close>

datatype voice_slot =
  OnAudioGenerated | PlayAudioAndListen | PlayAudioAndResume | PlayAudioAndClose

text \<open>
  What the handlers do to the outside, in the order they do it: calls of the mixer, servo
  animations, screens shown, worker threads started.
\<close>

datatype effect =
    ShowQuestion int
  | ShowResults
  | MusicLoadPlay string
  | MusicPause
  | MusicUnpause
  | MusicStop
  | GestureCorrect
  | GestureWrong
  | StartAIWorker string string
  | TerminateAIWorker
  | StartDoubtAIWorker string string
  | StartQuizWorker string string string string int
  | StartVoiceWorker string string voice_slot
  | StartListenWorker nat

text \<open>
  The attributes of TeacherGUI that the handlers below read or write, the widgets by the
  property used (text, enabled, visible), each QTimer by whether it is active, and the
  world around it: the mixer, the files of the directory \<open>sounds\<close> with their sizes in
  the order of \<open>os.listdir\<close>, the state of the module \<open>random\<close> with its \<open>_randbelow\<close>
  (any function: the generator itself is not modelled), the ListenWorker threads ever
  started. Calls that only restyle or move widgets are left out.
\<close>

record TeacherGUI =
  name_input :: string
  topic_input :: string
  grade_combo :: string
  subject_combo :: string
  language_combo :: string
  word_limit_combo :: string
  q_num_combo :: int
  GOOGLE_MODEL_NAME :: string
  is_learning_mode :: bool
  pending_text :: string
  current_topic :: string
  current_subject :: string
  is_first_chunk :: bool
  worker_running :: bool
  quiz_data :: "json list"
  current_question_index :: int
  score :: int
  is_quiz_mode :: bool
  is_audio_paused :: bool
  is_audio_generating :: bool
  last_generated_audio_text :: string
  is_listening_active :: bool
  listen_worker :: "nat option"
  audio_timer :: bool
  blink_timer :: bool
  opening_timer :: bool
  resume_timer :: bool
  close_timer :: bool
  quiz_wait_timer :: bool
  single_shots :: nat
  option_buttons :: "QPushButton list"
  progress_label :: string
  question_label :: string
  score_label :: string
  msg_label :: string
  quiz_loading_lbl :: string
  status_label :: string
  result_area :: "text_chunk list"
  doubt_chat :: "string list"
  voice_btn :: voice_btn_text
  doubt_widget :: bool
  start_btn_enabled :: bool
  start_quiz_btn_enabled :: bool
  quiz_setup_widget :: bool
  quiz_active_container :: bool
  quiz_result_container :: bool
  music :: music
  sounds :: "(string \<times> nat) list"
  random_state :: nat
  randbelow :: "nat \<Rightarrow> nat \<Rightarrow> nat \<times> nat"
  listen_threads :: "ListenWorker list"
  servos :: ServoController
  trace :: "effect list"

section \<open>The mixer and the random module\<close>

definition get_busy :: "TeacherGUI \<Rightarrow> bool" where
  "get_busy s = (case music s of Playing f \<Rightarrow> True | _ \<Rightarrow> False)"

definition music_pause :: "TeacherGUI \<Rightarrow> TeacherGUI" where
  "music_pause s =
     s\<lparr>music := (case music s of Playing f \<Rightarrow> Paused f | m \<Rightarrow> m),
       trace := trace s @ [MusicPause]\<rparr>"

definition music_unpause :: "TeacherGUI \<Rightarrow> TeacherGUI" where
  "music_unpause s =
     s\<lparr>music := (case music s of Paused f \<Rightarrow> Playing f | m \<Rightarrow> m),
       trace := trace s @ [MusicUnpause]\<rparr>"

definition music_stop :: "TeacherGUI \<Rightarrow> TeacherGUI" where
  "music_stop s = s\<lparr>music := Idle, trace := trace s @ [MusicStop]\<rparr>"

text \<open>The stream reaches the end of its file.\<close>

definition music_finished :: "TeacherGUI \<Rightarrow> TeacherGUI" where
  "music_finished s = (case music s of Playing f \<Rightarrow> s\<lparr>music := Idle\<rparr> | _ \<Rightarrow> s)"

text \<open>\<open>os.path.exists\<close> of a path \<open>sounds/<name>\<close>.\<close>

definition sound_exists :: "TeacherGUI \<Rightarrow> string \<Rightarrow> bool" where
  "sound_exists s filename = (\<exists>(f, size) \<in> set (sounds s). ''sounds/'' @ f = filename)"

text \<open>
  \<open>play_audio_file\<close>: load and play replace whatever the stream held; a file that cannot
  be loaded raises inside the \<open>try\<close>, and nothing changes.
\<close>

definition play_audio_file :: "TeacherGUI \<Rightarrow> string \<Rightarrow> TeacherGUI" where
  "play_audio_file s filename =
     (if sound_exists s filename then
        (let s1 = s\<lparr>music := Playing filename, trace := trace s @ [MusicLoadPlay filename]\<rparr>
         in if filename = ''sounds/output.mp3''
            then s1\<lparr>voice_btn := BtnPause, audio_timer := True\<rparr>
            else s1)
      else s)"

definition stop_audio :: "TeacherGUI \<Rightarrow> TeacherGUI" where
  "stop_audio s =
     (let s1 = (if get_busy s \<or> is_audio_paused s then music_stop s else s)
      in s1\<lparr>is_audio_paused := False, audio_timer := False, voice_btn := BtnListen\<rparr>)"

text \<open>
  \<open>random.choice(seq)\<close> on a non-empty sequence is \<open>seq[_randbelow(len(seq))]\<close>; the value
  of the parameter function is reduced below the length, as \<open>_randbelow\<close> guarantees.
\<close>

definition random_choice :: "TeacherGUI \<Rightarrow> 'a list \<Rightarrow> 'a \<times> TeacherGUI" where
  "random_choice s xs =
     (let (i, g) = randbelow s (random_state s) (length xs)
      in (xs ! (i mod length xs), s\<lparr>random_state := g\<rparr>))"

section \<open>Quiz handlers\<close>

text \<open>The loop of \<open>show_question\<close> over \<open>enumerate(self.option_buttons)\<close>.\<close>

fun set_option_texts :: "json \<Rightarrow> int \<Rightarrow> QPushButton list \<Rightarrow> py_error + QPushButton list" where
  "set_option_texts options i [] = Inr []"
| "set_option_texts options i (btn # btns) =
     py_bind (getitem_int options i) (\<lambda>opt.
     py_bind (as_text opt) (\<lambda>t.
     py_bind (set_option_texts options (i + 1) btns) (\<lambda>rest.
       Inr (btn\<lparr>btn_text := t, btn_style := StyleNeutral, btn_enabled := True\<rparr> # rest))))"

definition show_question :: "TeacherGUI \<Rightarrow> py_error + TeacherGUI" where
  "show_question s =
     py_bind (py_getitem (quiz_data s) (current_question_index s)) (\<lambda>q_data.
     py_bind (getitem_str q_data ''question'') (\<lambda>question.
     py_bind (as_text question) (\<lambda>question_text.
     py_bind (getitem_str q_data ''options'') (\<lambda>options.
     py_bind (set_option_texts options 0 (option_buttons s)) (\<lambda>buttons.
       Inr (s\<lparr>quiz_active_container := True,
              progress_label := ''Question '' @ str_int (current_question_index s + 1)
                                @ ''/'' @ str_int (int (length (quiz_data s))),
              question_label := question_text,
              option_buttons := buttons,
              trace := trace s @ [ShowQuestion (current_question_index s)]\<rparr>))))))"

definition on_quiz_ready :: "TeacherGUI \<Rightarrow> json list \<Rightarrow> py_error + TeacherGUI" where
  "on_quiz_ready s data =
     show_question (s\<lparr>quiz_data := data, current_question_index := 0, score := 0,
                      quiz_loading_lbl := [], quiz_setup_widget := False\<rparr>)"

definition show_results :: "TeacherGUI \<Rightarrow> py_error + TeacherGUI" where
  "show_results s =
     (let total = int (length (quiz_data s));
          s1 = s\<lparr>quiz_active_container := False, quiz_result_container := True,
                 score_label := ''Score: '' @ str_int (score s) @ ''/'' @ str_int total,
                 trace := trace s @ [ShowResults]\<rparr>
      in if total = 0 then Inl ZeroDivisionError
         else (let percentage = (of_int (score s) / of_int total) * (100 :: rat)
               in Inr (s1\<lparr>msg_label :=
                         (if percentage \<ge> 80 then ''Excellent! You're a master.''
                          else if percentage \<ge> 50 then ''Good job! Keep practicing.''
                          else ''Don't give up! Try again.'')\<rparr>)))"

definition next_question :: "TeacherGUI \<Rightarrow> py_error + TeacherGUI" where
  "next_question s =
     (let s1 = s\<lparr>current_question_index := current_question_index s + 1\<rparr>
      in if current_question_index s1 < int (length (quiz_data s1))
         then show_question s1
         else show_results s1)"

definition check_quiz_audio_finished :: "TeacherGUI \<Rightarrow> py_error + TeacherGUI" where
  "check_quiz_audio_finished s =
     (if \<not> get_busy s then next_question (s\<lparr>quiz_wait_timer := False\<rparr>) else Inr s)"

text \<open>The files that \<open>check_answer\<close> chooses the feedback sound from.\<close>

definition feedback_files :: "TeacherGUI \<Rightarrow> string \<Rightarrow> string list" where
  "feedback_files s pre =
     map (\<lambda>(f, size). ''sounds/'' @ f)
       (filter (\<lambda>(f, size). prefix pre f \<and> suffix ''.mp3'' f \<and> size > 100) (sounds s))"

text \<open>
  The second half of \<open>check_answer\<close>, from the comment "Audio Selection Logic" on: the
  score, the choice of the sound, the start of the playback, the servo animation, and the
  timer that will call \<open>next_question\<close>.
\<close>

definition answer_feedback :: "TeacherGUI \<Rightarrow> bool \<Rightarrow> TeacherGUI" where
  "answer_feedback s1 right =
     (let s2 = (if right then s1\<lparr>score := score s1 + 1\<rparr> else s1);
          files_list = feedback_files s2 (if right then ''win_exp_'' else ''lose_exp_'');
          (audio_file, s3) =
            (if files_list \<noteq> [] then (let (f, s') = random_choice s2 files_list in (Some f, s'))
             else (None, s2));
          s4 = (case audio_file of Some f \<Rightarrow> play_audio_file s3 f | None \<Rightarrow> s3);
          audio_started = (audio_file \<noteq> None);
          s5 = (if right
                then s4\<lparr>servos := correct_answer_gesture (servos s4),
                        trace := trace s4 @ [GestureCorrect]\<rparr>
                else s4\<lparr>servos := wrong_answer_gesture (servos s4),
                        trace := trace s4 @ [GestureWrong]\<rparr>)
      in if audio_started then s5\<lparr>quiz_wait_timer := True\<rparr>
         else s5\<lparr>single_shots := single_shots s5 + 1\<rparr>)"

definition check_answer :: "TeacherGUI \<Rightarrow> int \<Rightarrow> py_error + TeacherGUI" where
  "check_answer s user_idx =
     py_bind (py_getitem (quiz_data s) (current_question_index s)) (\<lambda>q_data.
     py_bind (getitem_str q_data ''answer'') (\<lambda>correct_idx.
     let disabled = map (\<lambda>btn. btn\<lparr>btn_enabled := False\<rparr>) (option_buttons s) in
     py_bind (as_index correct_idx) (\<lambda>ci.
     py_bind (case py_norm_index (length disabled) ci of
                None \<Rightarrow> Inl IndexError
              | Some j \<Rightarrow> Inr (disabled[j := (disabled ! j)\<lparr>btn_style := StyleCorrect\<rparr>])) (\<lambda>marked.
     py_bind (if \<not> py_eq_int user_idx correct_idx then
                (case py_norm_index (length marked) user_idx of
                   None \<Rightarrow> Inl IndexError
                 | Some j \<Rightarrow> Inr (marked[j := (marked ! j)\<lparr>btn_style := StyleWrong\<rparr>]))
              else Inr marked) (\<lambda>buttons.
       Inr (answer_feedback (s\<lparr>option_buttons := buttons\<rparr>)
              (py_eq_int user_idx correct_idx)))))))"

section \<open>Strings and prompts\<close>

text \<open>
  \<open>str.strip\<close>, \<open>str.lower\<close> and \<open>in\<close> on strings, for ASCII text (a \<open>char\<close> is a byte).
\<close>

definition py_isspace :: "char \<Rightarrow> bool" where
  "py_isspace c = ((of_char c :: nat) \<in> {9, 10, 11, 12, 13, 28, 29, 30, 31, 32})"

definition py_strip :: "string \<Rightarrow> string" where
  "py_strip cs = rev (dropWhile py_isspace (rev (dropWhile py_isspace cs)))"

definition py_lower :: "string \<Rightarrow> string" where
  "py_lower cs =
     map (\<lambda>c. if 65 \<le> (of_char c :: nat) \<and> (of_char c :: nat) \<le> 90
              then char_of ((of_char c :: nat) + 32) else c) cs"

definition py_in :: "string \<Rightarrow> string \<Rightarrow> bool" where
  "py_in needle cs = sublist needle cs"

definition sq :: string where "sq = [CHR 0x27]"
definition dq :: string where "dq = [CHR 0x22]"
definition nl :: string where "nl = [CHR 0x0A]"

definition GET_LEARNING_PROMPT :: "string \<Rightarrow> string \<Rightarrow> string \<Rightarrow> string \<Rightarrow> string \<Rightarrow> string" where
  "GET_LEARNING_PROMPT topic language name grade word_limit =
     ''Analyze request: Topic='' @ sq @ topic @ sq @ '', Language='' @ sq @ language @ sq
     @ '', Name='' @ sq @ name @ sq @ ''. ''
     @ ''TASK: Explain this topic to a '' @ grade @ '' student strictly in '' @ language @ ''. ''
     @ ''RULES: ''
     @ ''1. OUTPUT MUST BE IN '' @ language @ '' ONLY. Text must be max '' @ word_limit
     @ ''2. Start by greeting '' @ name @ '' happily in '' @ language @ ''. ''
     @ ''3. Style: Super cool, fun, Gen Z vibe. ''
     @ ''4. Math & Science: Show exact formulas & numbers. ''
     @ ''5. STRICTLY DO NOT use markdown (bold/italic).''"

definition GET_QUIZ_PROMPT :: "string \<Rightarrow> string \<Rightarrow> string \<Rightarrow> int \<Rightarrow> string" where
  "GET_QUIZ_PROMPT topic grade language num_questions =
     ''Generate a quiz about '' @ sq @ topic @ sq @ '' for a '' @ grade @ '' student in ''
     @ language @ ''. ''
     @ ''Create exactly '' @ str_int num_questions @ '' multiple-choice questions. ''
     @ ''Output ONLY a raw JSON array. ''
     @ ''STRICT FORMAT RULES: ''
     @ ''1. No markdown (no ```json or ```). ''
     @ ''2. No introductory text or explanations. ''
     @ ''3. Valid JSON Array format: [{...}, {...}] ''
     @ ''Structure: [{'' @ dq @ ''question'' @ dq @ '': '' @ dq @ ''Question text'' @ dq
     @ '', '' @ dq @ ''options'' @ dq @ '': ['' @ dq @ ''Option A'' @ dq @ '', '' @ dq
     @ ''Option B'' @ dq @ '', '' @ dq @ ''Option C'' @ dq @ '', '' @ dq @ ''Option D'' @ dq
     @ ''], '' @ dq @ ''answer'' @ dq @ '': 0}, ...] ''
     @ ''where '' @ sq @ ''answer'' @ sq
     @ '' is the integer index (0, 1, 2, or 3) of the correct option.''"

definition GET_DOUBT_PROMPT :: "string \<Rightarrow> string \<Rightarrow> string \<Rightarrow> string \<Rightarrow> string \<Rightarrow> string" where
  "GET_DOUBT_PROMPT subject topic summary_context text language =
     ''Context: Subject '' @ subject @ '', Topic '' @ topic @ ''.'' @ nl
     @ ''Lesson Summary: '' @ summary_context @ ''...'' @ nl
     @ ''Student Question: '' @ text @ ''.'' @ nl
     @ ''TASK: Answer the question based on the Lesson Summary above.'' @ nl
     @ ''RULES:'' @ nl
     @ ''1. OUTPUT MUST BE IN '' @ language @ '' ONLY.'' @ nl
     @ ''2. Answer MUST be less than 30 words.''"

section \<open>Worker threads\<close>

text \<open>
  What the call inside the \<open>try\<close> of a worker's \<open>run\<close> does: it returns a value, or it
  raises an exception, of which \<open>run\<close> reads \<open>str(e)\<close>.
\<close>

datatype 'a outcome = Returned 'a | Raised string

datatype signal =
    TextReceived string
  | AIFinished
  | DataReceived "json list"
  | QuizErrorOccurred string
  | VoiceFinished
  | VoiceErrorOccurred string

text \<open>\<open>AIWorker.run\<close>; the value is \<open>response.text\<close>, which may be None or empty.\<close>

fun AIWorker_run :: "string option outcome \<Rightarrow> signal list" where
  "AIWorker_run (Returned None) = [AIFinished]"
| "AIWorker_run (Returned (Some text)) =
     (if text \<noteq> [] then [TextReceived text, AIFinished] else [AIFinished])"
| "AIWorker_run (Raised err) =
     (if py_in ''RESOURCE_EXHAUSTED'' err \<or> py_in ''429'' err
      then [TextReceived ''Error: Gemini API Quota Exceeded. Try again later.'', AIFinished]
      else if py_in ''API key'' err \<or> py_in ''401'' err
      then [TextReceived ''Error: Invalid Gemini API Key.'', AIFinished]
      else [TextReceived ''Error: Failed to generate content.'', AIFinished])"

text \<open>
  \<open>QuizWorker.run\<close>; the value is what \<open>json.loads\<close> returns for the cleaned text of the
  response. \<open>data_received\<close> is a signal of a list: to emit anything else raises inside
  the \<open>try\<close>, with a message that names the type.
\<close>

definition classify_quiz_error :: "string \<Rightarrow> string" where
  "classify_quiz_error err =
     (if py_in ''RESOURCE_EXHAUSTED'' err \<or> py_in ''429'' err
      then ''Error: Gemini Quota Exceeded.''
      else ''Error: Failed to generate quiz.'')"

fun QuizWorker_run :: "json outcome \<Rightarrow> signal list" where
  "QuizWorker_run (Returned (JList quiz)) = [DataReceived quiz]"
| "QuizWorker_run (Returned other) =
     [QuizErrorOccurred (classify_quiz_error ''argument 1 has unexpected type'')]"
| "QuizWorker_run (Raised err) = [QuizErrorOccurred (classify_quiz_error err)]"

text \<open>\<open>VoiceWorker.run\<close>; the value is the file written.\<close>

fun VoiceWorker_run :: "unit outcome \<Rightarrow> signal list" where
  "VoiceWorker_run (Returned u) = [VoiceFinished]"
| "VoiceWorker_run (Raised err) =
     (if py_in ''401'' err \<or> py_in ''API key'' err
      then [VoiceErrorOccurred ''Error: Invalid ElevenLabs API Key.'']
      else if py_in ''quota'' (py_lower err)
      then [VoiceErrorOccurred ''Error: ElevenLabs Quota Exceeded.'']
      else [VoiceErrorOccurred ''Error: Audio generation failed.''])"

section \<open>Lesson and quiz requests\<close>

definition activate_learning_view :: "TeacherGUI \<Rightarrow> TeacherGUI" where
  "activate_learning_view s =
     s\<lparr>status_label := [],
       servos := left_hand (right_hand (servos s) 0) 180,
       result_area := [PlainText ''Your AI Teacher is creating personalized content for you...''],
       is_learning_mode := True\<rparr>"

definition on_start_clicked :: "TeacherGUI \<Rightarrow> TeacherGUI" where
  "on_start_clicked s =
     (let name = py_strip (name_input s);
          grade = grade_combo s;
          subject = subject_combo s;
          language = language_combo s;
          topic = py_strip (topic_input s)
      in if name = [] \<or> grade = [] \<or> subject = [] \<or> language = [] \<or> topic = []
         then s\<lparr>status_label := ''Please fill in all fields.''\<rparr>
         else
           (let s1 = s\<lparr>start_btn_enabled := False, current_topic := topic,
                       current_subject := subject, pending_text := [],
                       is_learning_mode := False, is_first_chunk := True,
                       result_area := [], doubt_chat := []\<rparr>;
                s2 = (if worker_running s1
                      then s1\<lparr>worker_running := False,
                              trace := trace s1 @ [TerminateAIWorker]\<rparr>
                      else s1);
                word_limit = word_limit_combo s2;
                prompt = GET_LEARNING_PROMPT topic language name grade word_limit;
                s3 = s2\<lparr>worker_running := True,
                        trace := trace s2 @ [StartAIWorker (GOOGLE_MODEL_NAME s2) prompt]\<rparr>
            in activate_learning_view s3))"

definition on_generation_finished :: "TeacherGUI \<Rightarrow> TeacherGUI" where
  "on_generation_finished s = s"

definition update_text_area :: "TeacherGUI \<Rightarrow> string \<Rightarrow> TeacherGUI" where
  "update_text_area s text =
     (let clean_text = filter (\<lambda>c. c \<noteq> CHR ''*'' \<and> c \<noteq> CHR ''#'' \<and> c \<noteq> CHR 0x60) text;
          s1 = (if is_first_chunk s then s\<lparr>result_area := [], is_first_chunk := False\<rparr> else s)
      in if py_in ''Error:'' clean_text
         then s1\<lparr>result_area := result_area s1 @ [ErrorHtml (py_strip clean_text)]\<rparr>
         else s1\<lparr>result_area := result_area s1 @ [PlainText clean_text]\<rparr>)"

definition on_start_quiz_clicked :: "TeacherGUI \<Rightarrow> TeacherGUI" where
  "on_start_quiz_clicked s =
     (let num = q_num_combo s;
          s1 = s\<lparr>quiz_loading_lbl := ''Generating Questions... Please wait.'',
                 start_quiz_btn_enabled := False\<rparr>;
          topic = current_topic s1;
          grade = grade_combo s1;
          lang = language_combo s1
      in s1\<lparr>trace := trace s1 @ [StartQuizWorker (GOOGLE_MODEL_NAME s1) topic grade lang num]\<rparr>)"

text \<open>\<open>QTextEdit.toPlainText\<close>: the inserted HTML shows its text and a line break.\<close>

definition toPlainText :: "text_chunk list \<Rightarrow> string" where
  "toPlainText chunks =
     concat (map (\<lambda>c. case c of PlainText t \<Rightarrow> t | ErrorHtml t \<Rightarrow> t @ nl) chunks)"

section \<open>Voice handlers\<close>

definition on_voice_clicked :: "TeacherGUI \<Rightarrow> TeacherGUI" where
  "on_voice_clicked s =
     (if is_audio_generating s then s
      else if get_busy s
      then (music_pause s)\<lparr>is_audio_paused := True, voice_btn := BtnResume\<rparr>
      else if is_audio_paused s
      then (music_unpause s)\<lparr>is_audio_paused := False, voice_btn := BtnPause\<rparr>
      else (let current_text = toPlainText (result_area s)
            in if current_text = [] then s
               else if last_generated_audio_text s = current_text
                       \<and> sound_exists s ''sounds/output.mp3''
               then play_audio_file s ''sounds/output.mp3''
               else s\<lparr>voice_btn := BtnGenerating, is_audio_generating := True,
                      trace := trace s @ [StartVoiceWorker current_text ''sounds/output.mp3''
                                            OnAudioGenerated]\<rparr>))"

definition on_audio_generated :: "TeacherGUI \<Rightarrow> TeacherGUI" where
  "on_audio_generated s =
     play_audio_file
       (s\<lparr>is_audio_generating := False,
          last_generated_audio_text := toPlainText (result_area s)\<rparr>)
       ''sounds/output.mp3''"

definition on_audio_error :: "TeacherGUI \<Rightarrow> string \<Rightarrow> TeacherGUI" where
  "on_audio_error s err = s\<lparr>is_audio_generating := False, voice_btn := BtnError\<rparr>"

section \<open>Signals and the slots connected to them\<close>

text \<open>
  \<open>on_start_clicked\<close> connects \<open>text_received\<close> and \<open>finished\<close> of its AIWorker;
  \<open>on_start_quiz_clicked\<close> connects \<open>data_received\<close> of its QuizWorker and nothing else;
  \<open>on_voice_clicked\<close> connects \<open>finished\<close> and \<open>error_occurred\<close> of its VoiceWorker. A
  signal with no slot connected is dropped.
\<close>

fun lesson_worker_slot :: "TeacherGUI \<Rightarrow> signal \<Rightarrow> py_error + TeacherGUI" where
  "lesson_worker_slot s (TextReceived text) = Inr (update_text_area s text)"
| "lesson_worker_slot s AIFinished = Inr (on_generation_finished (s\<lparr>worker_running := False\<rparr>))"
| "lesson_worker_slot s other = Inr s"

fun quiz_worker_slot :: "TeacherGUI \<Rightarrow> signal \<Rightarrow> py_error + TeacherGUI" where
  "quiz_worker_slot s (DataReceived data) = on_quiz_ready s data"
| "quiz_worker_slot s other = Inr s"

fun voice_worker_slot :: "TeacherGUI \<Rightarrow> signal \<Rightarrow> py_error + TeacherGUI" where
  "voice_worker_slot s VoiceFinished = Inr (on_audio_generated s)"
| "voice_worker_slot s (VoiceErrorOccurred err) = Inr (on_audio_error s err)"
| "voice_worker_slot s other = Inr s"

fun deliver :: "(TeacherGUI \<Rightarrow> signal \<Rightarrow> py_error + TeacherGUI) \<Rightarrow> TeacherGUI \<Rightarrow> signal list
    \<Rightarrow> py_error + TeacherGUI" where
  "deliver slot s [] = Inr s"
| "deliver slot s (sig # sigs) = py_bind (slot s sig) (\<lambda>s'. deliver slot s' sigs)"

section \<open>Doubt and listening handlers\<close>

definition opening_phrases :: "string list" where
  "opening_phrases =
     [''I'm listening. What is your doubt?'',
      ''Go ahead, I'm all ears.'',
      ''Ask me anything about this topic.'']"

definition closing_phrases :: "string list" where
  "closing_phrases =
     [''Alright, let me know if you have any doubts. See ya!'',
      ''Great! Happy learning. Bye!'',
      ''Okay, closing this section. Have fun!'']"

text \<open>\<open>list.index\<close> of an element of the list.\<close>

definition py_index_of :: "'a list \<Rightarrow> 'a \<Rightarrow> nat" where
  "py_index_of xs x = length (takeWhile (\<lambda>y. y \<noteq> x) xs)"

text \<open>
  \<open>ListenWorker.stop\<close> clears the flag of the thread; the thread goes on until its loop
  reads the flag.
\<close>

definition stop_listen_worker :: "TeacherGUI \<Rightarrow> TeacherGUI" where
  "stop_listen_worker s =
     (case listen_worker s of
        None \<Rightarrow> s
      | Some w \<Rightarrow> s\<lparr>listen_threads :=
                     (listen_threads s)[w := (listen_threads s ! w)\<lparr>lw_is_running := False\<rparr>]\<rparr>)"

definition start_listening_worker :: "TeacherGUI \<Rightarrow> TeacherGUI" where
  "start_listening_worker s =
     (if (case listen_worker s of None \<Rightarrow> False | Some w \<Rightarrow> lw_alive (listen_threads s ! w))
      then s
      else s\<lparr>listen_threads := listen_threads s @ [\<lparr>lw_is_running = True, lw_alive = True\<rparr>],
             listen_worker := Some (length (listen_threads s)),
             trace := trace s @ [StartListenWorker (length (listen_threads s))]\<rparr>)"

definition start_doubt_session :: "TeacherGUI \<Rightarrow> TeacherGUI" where
  "start_doubt_session s =
     start_listening_worker
       (s\<lparr>is_listening_active := True, doubt_widget := True, blink_timer := True,
          doubt_chat := doubt_chat s @ [nl @ ''Listening...'']\<rparr>)"

definition play_audio_and_listen :: "TeacherGUI \<Rightarrow> string \<Rightarrow> TeacherGUI" where
  "play_audio_and_listen s filename = (play_audio_file s filename)\<lparr>opening_timer := True\<rparr>"

definition check_opening_finished_and_listen :: "TeacherGUI \<Rightarrow> TeacherGUI" where
  "check_opening_finished_and_listen s =
     (if \<not> get_busy s then start_doubt_session (s\<lparr>opening_timer := False\<rparr>) else s)"

definition play_random_opening_sound :: "TeacherGUI \<Rightarrow> TeacherGUI" where
  "play_random_opening_sound s =
     (let s1 = (if get_busy s
                then (music_pause s)\<lparr>is_audio_paused := True, voice_btn := BtnResume\<rparr>
                else s);
          (msg, s2) = random_choice s1 opening_phrases;
          msg_index = py_index_of opening_phrases msg;
          filename = ''sounds/opening_'' @ str_nat msg_index @ ''.mp3'';
          s3 = s2\<lparr>doubt_widget := True, doubt_chat := [''<b>AI:</b> '' @ msg]\<rparr>
      in if sound_exists s3 filename then play_audio_and_listen s3 filename
         else s3\<lparr>trace := trace s3 @ [StartVoiceWorker msg filename PlayAudioAndListen]\<rparr>)"

text \<open>
  \<open>close_doubt_session\<close>. \<open>wait(2000)\<close> returns after the thread has finished or after two
  seconds, whichever comes first; \<open>in_time\<close> says that the thread finished. The reference
  to the worker is dropped in both cases.
\<close>

definition close_doubt_session :: "TeacherGUI \<Rightarrow> bool \<Rightarrow> TeacherGUI" where
  "close_doubt_session s in_time =
     (let s1 = (stop_audio s)\<lparr>resume_timer := False, close_timer := False,
                               opening_timer := False\<rparr>;
          s2 = (case listen_worker s1 of
                  None \<Rightarrow> s1
                | Some w \<Rightarrow>
                    s1\<lparr>listen_threads :=
                         (listen_threads s1)
                           [w := \<lparr>lw_is_running = False,
                                  lw_alive = (lw_alive (listen_threads s1 ! w) \<and> \<not> in_time)\<rparr>],
                       listen_worker := None\<rparr>)
      in s2\<lparr>is_listening_active := False, doubt_widget := False, blink_timer := False\<rparr>)"

text \<open>The second definition of \<open>play_audio_and_close\<close> in the class, which is the one bound.\<close>

definition play_audio_and_close :: "TeacherGUI \<Rightarrow> string \<Rightarrow> TeacherGUI" where
  "play_audio_and_close s filename = (play_audio_file s filename)\<lparr>close_timer := True\<rparr>"

definition check_audio_finished_and_close :: "TeacherGUI \<Rightarrow> bool \<Rightarrow> TeacherGUI" where
  "check_audio_finished_and_close s in_time =
     (if \<not> get_busy s then close_doubt_session (s\<lparr>close_timer := False\<rparr>) in_time else s)"

definition play_random_closing_sound :: "TeacherGUI \<Rightarrow> TeacherGUI" where
  "play_random_closing_sound s =
     (let (msg, s1) = random_choice s closing_phrases;
          msg_index = py_index_of closing_phrases msg;
          filename = ''sounds/closing_'' @ str_nat msg_index @ ''.mp3'';
          s2 = s1\<lparr>doubt_chat := doubt_chat s1 @ [nl @ ''<b>AI:</b> '' @ msg]\<rparr>;
          s3 = stop_listen_worker s2
      in if sound_exists s3 filename then play_audio_and_close s3 filename
         else s3\<lparr>trace := trace s3 @ [StartVoiceWorker msg filename PlayAudioAndClose]\<rparr>)"

definition handle_parsed_doubt :: "TeacherGUI \<Rightarrow> string \<Rightarrow> TeacherGUI" where
  "handle_parsed_doubt s text =
     (let clean_text = py_strip (py_lower text);
          stop_keywords = [''no doubt'', ''no doubts'']
      in if list_ex (\<lambda>keyword. py_in keyword clean_text) stop_keywords
         then play_random_closing_sound s
         else
           (let s1 = stop_listen_worker s;
                s2 = s1\<lparr>doubt_chat := doubt_chat s1
                          @ [nl @ ''<span style='' @ sq @ ''color: #4A6CF7;'' @ sq
                             @ ''><b>You:</b> '' @ text @ ''</span>'']\<rparr>;
                summary_context = take 2000 (toPlainText (result_area s2));
                language = language_combo s2;
                prompt = GET_DOUBT_PROMPT (current_subject s2) (current_topic s2)
                           summary_context text language
            in s2\<lparr>trace := trace s2 @ [StartDoubtAIWorker (GOOGLE_MODEL_NAME s2) prompt]\<rparr>))"

definition play_doubt_audio_response :: "TeacherGUI \<Rightarrow> string \<Rightarrow> TeacherGUI" where
  "play_doubt_audio_response s text =
     (if text \<noteq> []
      then s\<lparr>trace := trace s @ [StartVoiceWorker text ''sounds/doubt_output.mp3''
                                    PlayAudioAndResume]\<rparr>
      else s)"

definition display_doubt_response :: "TeacherGUI \<Rightarrow> string \<Rightarrow> TeacherGUI" where
  "display_doubt_response s text =
     play_doubt_audio_response
       (if py_in ''Error:'' text
        then s\<lparr>doubt_chat := doubt_chat s
                 @ [''<br><b>AI:</b> <span style='' @ sq @ ''color: #FF4D4D;'' @ sq @ ''>''
                    @ text @ ''</span><br>'']\<rparr>
        else s\<lparr>doubt_chat := doubt_chat s @ [nl @ ''<b>AI:</b> '' @ text @ nl]\<rparr>)
       text"

definition play_audio_and_resume :: "TeacherGUI \<Rightarrow> string \<Rightarrow> TeacherGUI" where
  "play_audio_and_resume s filename = (play_audio_file s filename)\<lparr>resume_timer := True\<rparr>"

definition check_audio_finished_and_listen :: "TeacherGUI \<Rightarrow> TeacherGUI" where
  "check_audio_finished_and_listen s =
     (if \<not> get_busy s
      then (let s1 = s\<lparr>resume_timer := False\<rparr>
            in if is_listening_active s1
               then start_listening_worker
                      (s1\<lparr>doubt_chat := doubt_chat s1 @ [nl @ ''Listening...'']\<rparr>)
               else s1)
      else s)"

definition handle_gesture :: "TeacherGUI \<Rightarrow> string \<Rightarrow> TeacherGUI" where
  "handle_gesture s action =
     (if action = ''OPEN_DOUBT'' then
        (if is_learning_mode s \<and> \<not> is_listening_active s
         then (let s1 = (if get_busy s
                         then (music_pause s)\<lparr>is_audio_paused := True, voice_btn := BtnResume\<rparr>
                         else s)
               in play_random_opening_sound s1)
         else s)
      else if action = ''CLOSE_DOUBT'' then
        (if is_listening_active s then play_random_closing_sound s else s)
      else s)"

definition on_doubt_clicked :: "TeacherGUI \<Rightarrow> TeacherGUI" where
  "on_doubt_clicked s =
     (if is_listening_active s then play_random_closing_sound s
      else play_random_opening_sound s)"

definition on_quiz_clicked :: "TeacherGUI \<Rightarrow> bool \<Rightarrow> TeacherGUI" where
  "on_quiz_clicked s in_time =
     (close_doubt_session (stop_audio (s\<lparr>servos := quiz_ready_pose (servos s)\<rparr>)) in_time)
       \<lparr>is_quiz_mode := True, quiz_setup_widget := True\<rparr>"

text \<open>
  What happens to the window around a doubt session: the doubt button, the voice button or
  the quiz button is clicked, the VoiceWorker of the voice button has written its file of
  some size and finished, a gesture is seen, one of the three polling timers fires, the mixer reaches
  the end of the file, a ListenWorker thread recognises speech, a ListenWorker thread
  whose flag is cleared leaves its loop. A stopped timer does not fire and a finished
  thread emits nothing. The event that reaches \<open>close_doubt_session\<close> carries whether the
  thread finished within the wait.
\<close>

datatype doubt_event =
    DoubtClicked
  | VoiceClicked
  | LessonAudioReady nat
  | QuizClicked bool
  | GestureSeen string
  | OpeningTimeout
  | ResumeTimeout
  | CloseTimeout bool
  | MusicEnds
  | SpeechRecognized nat string
  | ListenThreadExits nat

definition doubt_step :: "TeacherGUI \<Rightarrow> doubt_event \<Rightarrow> TeacherGUI" where
  "doubt_step s ev =
     (case ev of
        DoubtClicked \<Rightarrow> on_doubt_clicked s
      | VoiceClicked \<Rightarrow> on_voice_clicked s
      | LessonAudioReady bytes \<Rightarrow>
          if is_audio_generating s
          then on_audio_generated (s\<lparr>sounds := sounds s @ [(''output.mp3'', bytes)]\<rparr>)
          else s
      | QuizClicked in_time \<Rightarrow> on_quiz_clicked s in_time
      | GestureSeen action \<Rightarrow> handle_gesture s action
      | OpeningTimeout \<Rightarrow> if opening_timer s then check_opening_finished_and_listen s else s
      | ResumeTimeout \<Rightarrow> if resume_timer s then check_audio_finished_and_listen s else s
      | CloseTimeout in_time \<Rightarrow>
          if close_timer s then check_audio_finished_and_close s in_time else s
      | MusicEnds \<Rightarrow> music_finished s
      | SpeechRecognized w text \<Rightarrow>
          if w < length (listen_threads s) \<and> lw_alive (listen_threads s ! w)
          then handle_parsed_doubt s text else s
      | ListenThreadExits w \<Rightarrow>
          if w < length (listen_threads s) \<and> \<not> lw_is_running (listen_threads s ! w)
          then s\<lparr>listen_threads := (listen_threads s)[w := (listen_threads s ! w)\<lparr>lw_alive := False\<rparr>]\<rparr>
          else s)"

definition doubt_run :: "TeacherGUI \<Rightarrow> doubt_event list \<Rightarrow> TeacherGUI" where
  "doubt_run s evs = foldl doubt_step s evs"

text \<open>The ListenWorker threads that are running, and whether the mixer or a thread is active.\<close>

definition running_listeners :: "TeacherGUI \<Rightarrow> nat" where
  "running_listeners s = length (filter lw_alive (listen_threads s))"

definition playback_active :: "TeacherGUI \<Rightarrow> bool" where
  "playback_active s = get_busy s"

definition listening_active :: "TeacherGUI \<Rightarrow> bool" where
  "listening_active s = (0 < running_listeners s)"

definition count_effect :: "effect \<Rightarrow> effect list \<Rightarrow> nat" where
  "count_effect e es = length (filter (\<lambda>x. x = e) es)"

section \<open>The window after construction\<close>

definition reset_all :: "ServoController \<Rightarrow> ServoController" where
  "reset_all sc = left_hand (right_hand sc 0) 180"

text \<open>
  \<open>TeacherGUI.__init__\<close> with the widgets as the setup methods leave them. The board, the
  files of \<open>sounds\<close> and the random generator are what the machine provides.
\<close>

definition TeacherGUI_init ::
  "bool \<Rightarrow> (string \<times> nat) list \<Rightarrow> nat \<Rightarrow> (nat \<Rightarrow> nat \<Rightarrow> nat \<times> nat) \<Rightarrow> TeacherGUI" where
  "TeacherGUI_init board files seed rb =
     \<lparr>name_input = ''Muni'', topic_input = ''Photo Synthesis'', grade_combo = ''Grade 10'',
      subject_combo = ''Science'', language_combo = ''English'',
      word_limit_combo = ''100 words'', q_num_combo = 5,
      GOOGLE_MODEL_NAME = ''gemini-2.5-flash-lite'',
      is_learning_mode = False, pending_text = [], current_topic = [], current_subject = [],
      is_first_chunk = False, worker_running = False,
      quiz_data = [], current_question_index = 0, score = 0, is_quiz_mode = False,
      is_audio_paused = False, is_audio_generating = False, last_generated_audio_text = [],
      is_listening_active = False, listen_worker = None,
      audio_timer = False, blink_timer = False, opening_timer = False, resume_timer = False,
      close_timer = False, quiz_wait_timer = False, single_shots = 0,
      option_buttons =
        map (\<lambda>i. \<lparr>btn_text = ''Option '' @ str_nat (i + 1), btn_enabled = True,
                   btn_style = StyleNeutral\<rparr>) [0..<4],
      progress_label = ''Question 1/5'', question_label = ''Question text...'',
      score_label = ''Score: 0/0'', msg_label = ''Great Job!'', quiz_loading_lbl = [],
      status_label = [], result_area = [], doubt_chat = [], voice_btn = BtnListen,
      doubt_widget = False, start_btn_enabled = True, start_quiz_btn_enabled = True,
      quiz_setup_widget = False, quiz_active_container = False,
      quiz_result_container = False,
      music = Idle, sounds = files, random_state = seed, randbelow = rb,
      listen_threads = [],
      servos = (if board then reset_all \<lparr>pca = Some (replicate 16 0)\<rparr> else \<lparr>pca = None\<rparr>),
      trace = []\<rparr>"

section \<open>A quiz run\<close>

text \<open>
  The shape of a quiz item that the prompt asks the model for: a dict with a string under
  \<open>question\<close>, a list of at least four elements under \<open>options\<close> and an integer from 0 to 3
  under \<open>answer\<close>.
\<close>

fun valid_item :: "json \<Rightarrow> bool" where
  "valid_item (JDict kvs) =
     ((case map_of kvs ''question'' of Some (JStr q) \<Rightarrow> True | _ \<Rightarrow> False)
      \<and> (case map_of kvs ''options'' of Some (JList opts) \<Rightarrow> 4 \<le> length opts | _ \<Rightarrow> False)
      \<and> (case map_of kvs ''answer'' of Some (JInt a) \<Rightarrow> 0 \<le> a \<and> a \<le> 3 | _ \<Rightarrow> False))"
| "valid_item _ = False"

definition quiz_data_valid :: "json list \<Rightarrow> bool" where
  "quiz_data_valid data = list_all valid_item data"

text \<open>A subscript failed: the index or key is not there, or the value has no subscript.\<close>

definition access_failed :: "py_error + 'a \<Rightarrow> bool" where
  "access_failed r =
     (case r of
        Inl IndexError \<Rightarrow> True
      | Inl KeyError \<Rightarrow> True
      | Inl TypeError \<Rightarrow> True
      | _ \<Rightarrow> False)"

text \<open>The user's choice is the recorded answer, by the comparison of \<open>check_answer\<close>.\<close>

definition answer_matches :: "int \<Rightarrow> json \<Rightarrow> bool" where
  "answer_matches user_idx q_data =
     (case getitem_str q_data ''answer'' of
        Inr correct_idx \<Rightarrow> py_eq_int user_idx correct_idx
      | Inl e \<Rightarrow> False)"

text \<open>
  What happens to the window during a quiz: an option button is clicked, the timer that
  polls the mixer fires, the single-shot timer fires, the mixer reaches the end of the
  file. A disabled or hidden button emits no click and a stopped timer does not fire.
\<close>

datatype quiz_event = OptionClicked nat | QuizWaitTimeout | SingleShotTimeout | MusicFinished

definition quiz_step :: "TeacherGUI \<Rightarrow> quiz_event \<Rightarrow> py_error + TeacherGUI" where
  "quiz_step s ev =
     (case ev of
        OptionClicked i \<Rightarrow>
          if quiz_active_container s \<and> i < length (option_buttons s)
             \<and> btn_enabled (option_buttons s ! i)
          then check_answer s (int i) else Inr s
      | QuizWaitTimeout \<Rightarrow>
          if quiz_wait_timer s then check_quiz_audio_finished s else Inr s
      | SingleShotTimeout \<Rightarrow>
          if 0 < single_shots s then next_question (s\<lparr>single_shots := single_shots s - 1\<rparr>)
          else Inr s
      | MusicFinished \<Rightarrow> Inr (music_finished s))"


text \<open>
  A session in which the user answers the questions one after the other: a click on
  option \<open>u\<close>, the feedback sound runs to its end, the pending timer fires.
\<close>

definition answer_question :: "TeacherGUI \<Rightarrow> int \<Rightarrow> py_error + TeacherGUI" where
  "answer_question s u =
     py_bind (check_answer s u) (\<lambda>s1.
       if quiz_wait_timer s1 then check_quiz_audio_finished (music_finished s1)
       else next_question (s1\<lparr>single_shots := single_shots s1 - 1\<rparr>))"

fun answer_questions :: "TeacherGUI \<Rightarrow> int list \<Rightarrow> py_error + TeacherGUI" where
  "answer_questions s [] = Inr s"
| "answer_questions s (u # us) = py_bind (answer_question s u) (\<lambda>s'. answer_questions s' us)"

definition quiz_session :: "TeacherGUI \<Rightarrow> json list \<Rightarrow> int list \<Rightarrow> py_error + TeacherGUI" where
  "quiz_session s data us = py_bind (on_quiz_ready s data) (\<lambda>s1. answer_questions s1 us)"

text \<open>
  The order that a quiz run must keep, read off the effects: question 0 is shown; for the
  question on display the feedback sound may start and the gesture runs; only then the next
  question, with the next index, or the results are shown.
\<close>

datatype quiz_phase = Start | Asking int | AudioStarted int | FeedbackGiven int | Finished




section \<open>Leaving a quiz and starting another\<close>

text \<open>
  \<open>on_back_clicked\<close>; \<open>in_time\<close> is handed to \<open>close_doubt_session\<close>. It stops the audio and
  the timers of the doubt session; the timers of the quiz are not touched.
\<close>

definition on_back_clicked :: "TeacherGUI \<Rightarrow> bool \<Rightarrow> TeacherGUI" where
  "on_back_clicked s in_time =
     (let s1 = close_doubt_session (stop_audio s) in_time
      in if is_quiz_mode s1 \<and> (quiz_active_container s1 \<or> quiz_result_container s1)
         then s1\<lparr>quiz_active_container := False, quiz_result_container := False,
                 quiz_setup_widget := True, start_quiz_btn_enabled := True\<rparr>
         else if is_quiz_mode s1 \<and> quiz_setup_widget s1
         then s1\<lparr>is_quiz_mode := False, quiz_setup_widget := False,
                 doubt_widget := is_listening_active s1,
                 servos := left_hand (right_hand (servos s1) 0) 180\<rparr>
         else
           (let s2 = s1\<lparr>servos := reset_all (servos s1), is_learning_mode := False,
                        pending_text := []\<rparr>;
                s3 = (if worker_running s2
                      then s2\<lparr>worker_running := False,
                              trace := trace s2 @ [TerminateAIWorker]\<rparr>
                      else s2)
            in s3\<lparr>start_btn_enabled := True\<rparr>))"

text \<open>
  The events of a quiz run together with those around it: the quiz button, the start-quiz
  button (which acts only while it is shown and enabled), the arrival of the data of a
  QuizWorker, the back button.
\<close>

datatype session_event =
    QuizEvent quiz_event
  | QuizButtonClicked bool
  | StartQuizClicked
  | QuizDataReceived "json list"
  | BackClicked bool

definition session_step :: "TeacherGUI \<Rightarrow> session_event \<Rightarrow> py_error + TeacherGUI" where
  "session_step s ev =
     (case ev of
        QuizEvent e \<Rightarrow> quiz_step s e
      | QuizButtonClicked in_time \<Rightarrow> Inr (on_quiz_clicked s in_time)
      | StartQuizClicked \<Rightarrow>
          if quiz_setup_widget s \<and> start_quiz_btn_enabled s
          then Inr (on_start_quiz_clicked s) else Inr s
      | QuizDataReceived data \<Rightarrow> on_quiz_ready s data
      | BackClicked in_time \<Rightarrow> Inr (on_back_clicked s in_time))"

fun session_run :: "TeacherGUI \<Rightarrow> session_event list \<Rightarrow> py_error + TeacherGUI" where
  "session_run s [] = Inr s"
| "session_run s (ev # evs) = py_bind (session_step s ev) (\<lambda>s'. session_run s' evs)"


definition succeeded :: "py_error + 'a \<Rightarrow> bool" where
  "succeeded r = (case r of Inr x \<Rightarrow> True | Inl e \<Rightarrow> False)"

text \<open>What is read off a window at the end of a run of events.\<close>

definition quiz_observation :: "py_error + TeacherGUI \<Rightarrow> (effect list \<times> int \<times> int) option" where
  "quiz_observation r =
     (case r of
        Inr s \<Rightarrow> Some (trace s, current_question_index s, score s)
      | Inl e \<Rightarrow> None)"

definition doubt_observation ::
  "TeacherGUI \<Rightarrow> music \<times> bool \<times> bool \<times> ListenWorker list \<times> effect list" where
  "doubt_observation s =
     (music s, is_audio_paused s, is_listening_active s, listen_threads s, trace s)"

section \<open>A concrete machine for the examples\<close>

text \<open>
  A generator that returns its state reduced below \<open>n\<close> and advances it by one, the
  directory as the startup worker fills it, and the window built on them without the servo
  board.
\<close>

definition counter_randbelow :: "nat \<Rightarrow> nat \<Rightarrow> nat \<times> nat" where
  "counter_randbelow g n = (g mod n, g + 1)"

definition example_sounds :: "(string \<times> nat) list" where
  "example_sounds =
     [(''closing_0.mp3'', 2000), (''closing_1.mp3'', 2000), (''closing_2.mp3'', 2000),
      (''opening_0.mp3'', 2000), (''opening_1.mp3'', 2000), (''opening_2.mp3'', 2000),
      (''win_exp_0.mp3'', 2000), (''win_exp_1.mp3'', 2000), (''win_exp_2.mp3'', 2000),
      (''win_exp_3.mp3'', 2000), (''win_exp_4.mp3'', 2000), (''lose_exp_0.mp3'', 2000),
      (''lose_exp_1.mp3'', 2000), (''lose_exp_2.mp3'', 2000), (''lose_exp_3.mp3'', 2000),
      (''lose_exp_4.mp3'', 2000)]"

definition example_gui :: TeacherGUI where
  "example_gui = TeacherGUI_init False example_sounds 0 counter_randbelow"

text \<open>
  The window while a generated lesson is read aloud: \<open>on_start_clicked\<close> has set the
  topic and the learning mode, the text has arrived, the VoiceWorker of the voice button
  has written \<open>sounds/output.mp3\<close> and \<open>on_audio_generated\<close> has started it.
\<close>

definition example_lesson :: TeacherGUI where
  "example_lesson =
     example_gui\<lparr>current_topic := ''Photo Synthesis'', current_subject := ''Science'',
                 is_learning_mode := True, start_btn_enabled := False,
                 result_area := [PlainText ''Plants make food from light.''],
                 last_generated_audio_text := ''Plants make food from light.'',
                 sounds := example_sounds @ [(''output.mp3'', 50000)],
                 music := Playing ''sounds/output.mp3'',
                 voice_btn := BtnPause, audio_timer := True\<rparr>"

text \<open>
  A doubt session opened and closed by gesture while the lesson is read aloud; every
  sound runs to its end and the listening thread finishes within the wait.
\<close>

definition example_doubt_session :: "doubt_event list" where
  "example_doubt_session =
     [GestureSeen ''OPEN_DOUBT'', MusicEnds, OpeningTimeout,
      GestureSeen ''CLOSE_DOUBT'', MusicEnds, CloseTimeout True]"

text \<open>
  A doubt session opened, closed and opened again with the doubt button; at the close the
  listening thread is still inside \<open>listen\<close> when the wait of two seconds ends.
\<close>

definition reopened_doubt_session :: "doubt_event list" where
  "reopened_doubt_session =
     [DoubtClicked, MusicEnds, OpeningTimeout,
      DoubtClicked, MusicEnds, CloseTimeout False,
      DoubtClicked, MusicEnds, OpeningTimeout]"

text \<open>The voice button is used while the doubt session listens.\<close>

definition voice_during_doubt :: "doubt_event list" where
  "voice_during_doubt =
     [DoubtClicked, MusicEnds, OpeningTimeout, VoiceClicked, VoiceClicked]"

text \<open>Two machines that differ in the files of \<open>sounds\<close> only.\<close>

definition first_win_sound_only :: TeacherGUI where
  "first_win_sound_only = example_gui\<lparr>sounds := [(''win_exp_0.mp3'', 2000)]\<rparr>"

definition second_win_sound_only :: TeacherGUI where
  "second_win_sound_only = example_gui\<lparr>sounds := [(''win_exp_1.mp3'', 2000)]\<rparr>"

definition example_quiz :: "json list" where
  "example_quiz =
     [JDict [(''question'', JStr ''2 + 2 = ?''),
             (''options'', JList [JStr ''3'', JStr ''4'', JStr ''5'', JStr ''6'']),
             (''answer'', JInt 1)],
      JDict [(''question'', JStr ''3 * 3 = ?''),
             (''options'', JList [JStr ''6'', JStr ''7'', JStr ''9'', JStr ''12'']),
             (''answer'', JInt 2)]]"

text \<open>
  A quiz is started and its first question answered; during the feedback sound the user
  goes back, the polling timer fires and shows the old quiz again beside the enabled
  start-quiz button; the user starts a new quiz and answers the old question on display;
  the data of the new quiz arrives while that feedback sound plays; the sound ends and
  the polling timer fires.
\<close>

definition second_quiz_with_timer_pending :: "session_event list" where
  "second_quiz_with_timer_pending =
     [QuizButtonClicked True, StartQuizClicked, QuizDataReceived example_quiz,
      QuizEvent (OptionClicked 1), BackClicked True, QuizEvent QuizWaitTimeout,
      StartQuizClicked, QuizEvent (OptionClicked 0), QuizDataReceived example_quiz,
      QuizEvent MusicFinished, QuizEvent QuizWaitTimeout]"

section \<open>Servo pulse and duty cycle\<close>

lemma clamp_angle_range: "0 \<le> clamp_angle a \<and> clamp_angle a \<le> 180"
  by (simp add: clamp_angle_def)

lemma clamp_angle_mono: "a \<le> b \<Longrightarrow> clamp_angle a \<le> clamp_angle b"
  by (auto simp: clamp_angle_def max_def min_def)

lemma pulse_us_alt: "pulse_us a = 500 + clamp_angle a * (100 / 9)"
  by (simp add: pulse_us_def SERVO_MIN_US_def SERVO_MAX_US_def)

lemma pulse_us_range: "500 \<le> pulse_us a \<and> pulse_us a \<le> 2500"
proof -
  have "0 \<le> clamp_angle a" "clamp_angle a \<le> 180"
    using clamp_angle_range by simp_all
  then show ?thesis
    unfolding pulse_us_alt by simp
qed

lemma pulse_us_mono: "a \<le> b \<Longrightarrow> pulse_us a \<le> pulse_us b"
  using clamp_angle_mono [of a b] by (simp add: pulse_us_alt)

lemma duty_cycle_floor: "duty_cycle a = \<lfloor>pulse_us a * (13107 / 4000)\<rfloor>"
proof -
  have "0 \<le> pulse_us a"
    using pulse_us_range [of a] by linarith
  then have nonneg: "0 \<le> pulse_us a * (13107 / 4000)"
    by simp
  have "pulse_us a / 20000 * 65535 = pulse_us a * (13107 / 4000)"
    by simp
  then have "duty_cycle a = py_int (pulse_us a * (13107 / 4000))"
    by (simp only: duty_cycle_def PWM_PERIOD_US_def)
  with nonneg show ?thesis
    by (simp only: py_int_def if_True)
qed

lemma duty_cycle_mono: "a \<le> b \<Longrightarrow> duty_cycle a \<le> duty_cycle b"
  unfolding duty_cycle_floor
  by (rule floor_mono) (simp add: pulse_us_mono)

lemma duty_cycle_0: "duty_cycle 0 = 1638"
  unfolding duty_cycle_floor pulse_us_alt clamp_angle_def
  by (simp add: floor_eq_iff)

lemma duty_cycle_180: "duty_cycle 180 = 8191"
  unfolding duty_cycle_floor pulse_us_alt clamp_angle_def
  by (simp add: floor_eq_iff)

lemma duty_cycle_clamp: "duty_cycle (clamp_angle a) = duty_cycle a"
proof -
  have "clamp_angle (clamp_angle a) = clamp_angle a"
    by (auto simp: clamp_angle_def max_def min_def)
  then show ?thesis
    by (simp add: duty_cycle_def pulse_us_def)
qed

lemma duty_cycle_range: "1638 \<le> duty_cycle a \<and> duty_cycle a \<le> 8191"
proof -
  have "duty_cycle 0 \<le> duty_cycle (clamp_angle a)"
    by (rule duty_cycle_mono) (simp add: clamp_angle_range)
  moreover have "duty_cycle (clamp_angle a) \<le> duty_cycle 180"
    by (rule duty_cycle_mono) (simp add: clamp_angle_range)
  ultimately show ?thesis
    by (simp add: duty_cycle_clamp duty_cycle_0 duty_cycle_180)
qed

text \<open>
  C9. For every angle and every valid channel of a present board, \<open>set_servo_angle\<close>
  clamps the angle into [0, 180], so the pulse width lies in [500, 2500] microseconds and
  the duty cycle written to the channel lies between the value for angle 0 (1638) and the
  value for angle 180 (8191); the duty cycle is monotonically non-decreasing in the angle.
\<close>

theorem set_servo_angle_duty_cycle_bounded:
  "500 \<le> pulse_us angle \<and> pulse_us angle \<le> 2500
   \<and> duty_cycle 0 = 1638 \<and> duty_cycle 180 = 8191
   \<and> duty_cycle 0 \<le> duty_cycle angle \<and> duty_cycle angle \<le> duty_cycle 180
   \<and> (a \<le> b \<longrightarrow> duty_cycle a \<le> duty_cycle b)
   \<and> (pca sc = Some chans \<and> py_norm_index (length chans) channel = Some j \<longrightarrow>
        pca (set_servo_angle sc channel angle) = Some (chans[j := duty_cycle angle]))"
proof -
  have "pca sc = Some chans \<and> py_norm_index (length chans) channel = Some j \<longrightarrow>
        pca (set_servo_angle sc channel angle) = Some (chans[j := duty_cycle angle])"
    by (simp add: set_servo_angle_def)
  then show ?thesis
    using pulse_us_range [of angle] duty_cycle_range [of angle] duty_cycle_mono [of a b]
    by (simp add: duty_cycle_0 duty_cycle_180)
qed

theorem set_servo_angle_duty_cycle_bounded_witness:
  "pca \<lparr>pca = Some (replicate 16 0)\<rparr> = Some (replicate 16 0)
   \<and> py_norm_index (length (replicate 16 (0::int))) 1 = Some 1
   \<and> pca (set_servo_angle \<lparr>pca = Some (replicate 16 0)\<rparr> 1 200)
       = Some ((replicate 16 0)[1 := duty_cycle 200])
   \<and> duty_cycle 200 \<le> 8191
   \<and> (45::rat) \<le> 90 \<and> duty_cycle 45 \<le> duty_cycle 90"
  using set_servo_angle_duty_cycle_bounded
    [of 200 45 90 "\<lparr>pca = Some (replicate 16 0)\<rparr>" "replicate 16 0" 1 1]
  by (simp add: py_norm_index_def)

section \<open>The quiz handlers, one by one\<close>

lemma py_bind_Inr [simp]: "py_bind (Inr x) f = f x"
  by (simp add: py_bind_def)

lemma py_bind_Inl [simp]: "py_bind (Inl e) f = Inl e"
  by (simp add: py_bind_def)

lemma py_bind_eq_Inr: "py_bind m f = Inr y \<longleftrightarrow> (\<exists>x. m = Inr x \<and> f x = Inr y)"
  by (cases m) simp_all

lemma play_audio_file_fields:
  "quiz_data (play_audio_file s f) = quiz_data s"
  "current_question_index (play_audio_file s f) = current_question_index s"
  "score (play_audio_file s f) = score s"
  "option_buttons (play_audio_file s f) = option_buttons s"
  "quiz_wait_timer (play_audio_file s f) = quiz_wait_timer s"
  "single_shots (play_audio_file s f) = single_shots s"
  "quiz_active_container (play_audio_file s f) = quiz_active_container s"
  "quiz_result_container (play_audio_file s f) = quiz_result_container s"
  "score_label (play_audio_file s f) = score_label s"
  "servos (play_audio_file s f) = servos s"
  by (simp_all add: play_audio_file_def Let_def)


lemma snd_random_choice:
  "snd (random_choice s xs) = s\<lparr>random_state := snd (randbelow s (random_state s) (length xs))\<rparr>"
  by (simp add: random_choice_def split_beta)

lemma answer_feedback_fields:
  "quiz_data (answer_feedback s r) = quiz_data s"
  "current_question_index (answer_feedback s r) = current_question_index s"
  "score (answer_feedback s r) = score s + (if r then 1 else 0)"
  "option_buttons (answer_feedback s r) = option_buttons s"
  "quiz_active_container (answer_feedback s r) = quiz_active_container s"
  "quiz_result_container (answer_feedback s r) = quiz_result_container s"
  "score_label (answer_feedback s r) = score_label s"
  by (simp_all add: answer_feedback_def Let_def split_beta snd_random_choice play_audio_file_fields)


lemma feedback_files_score [simp]:
  "feedback_files (s\<lparr>score := x\<rparr>) pre = feedback_files s pre"
  by (simp add: feedback_files_def)




lemma show_question_Inr:
  assumes "show_question s = Inr s'"
  shows "\<exists>qt bs q. s' = s\<lparr>quiz_active_container := True,
              progress_label := ''Question '' @ str_int (current_question_index s + 1)
                                @ ''/'' @ str_int (int (length (quiz_data s))),
              question_label := qt, option_buttons := bs,
              trace := trace s @ [ShowQuestion (current_question_index s)]\<rparr>
           \<and> py_getitem (quiz_data s) (current_question_index s) = Inr q"
  using assms unfolding show_question_def py_bind_eq_Inr by auto

lemma show_results_Inr:
  assumes "show_results s = Inr s'"
  shows "\<exists>m. s' = s\<lparr>quiz_active_container := False, quiz_result_container := True,
                 score_label := ''Score: '' @ str_int (score s) @ ''/''
                                @ str_int (int (length (quiz_data s))),
                 trace := trace s @ [ShowResults], msg_label := m\<rparr>"
  using assms unfolding show_results_def Let_def by (auto split: if_splits)

lemma py_bindE:
  assumes "py_bind m f = Inr y"
  obtains x where "m = Inr x" and "f x = Inr y"
  using assms by (auto simp: py_bind_eq_Inr)

lemma all_disabled_map:
  "list_all (\<lambda>b. \<not> btn_enabled b) (map (\<lambda>btn. btn\<lparr>btn_enabled := False\<rparr>) bs)"
  by (induction bs) simp_all

lemma all_disabled_restyle:
  assumes "list_all (\<lambda>b. \<not> btn_enabled b) bs"
  shows "list_all (\<lambda>b. \<not> btn_enabled b) (bs[j := (bs ! j)\<lparr>btn_style := st\<rparr>])"
proof (cases "j < length bs")
  case True
  with assms show ?thesis
    by (auto simp: list_all_length nth_list_update)
next
  case False
  then have "bs[j := (bs ! j)\<lparr>btn_style := st\<rparr>] = bs"
    by (simp add: list_update_beyond)
  with assms show ?thesis
    by (simp only:)
qed

lemma mark_button_Inr:
  assumes "(case py_norm_index (length bs) i of
              None \<Rightarrow> Inl IndexError
            | Some j \<Rightarrow> Inr (bs[j := (bs ! j)\<lparr>btn_style := st\<rparr>])) = Inr bs'"
    and "list_all (\<lambda>b. \<not> btn_enabled b) bs"
  shows "list_all (\<lambda>b. \<not> btn_enabled b) bs'"
  using assms all_disabled_restyle [of bs _ st]
  by (auto split: option.splits)

lemma check_answer_Inr:
  assumes "check_answer s u = Inr s'"
  shows "\<exists>q c bs. py_getitem (quiz_data s) (current_question_index s) = Inr q
           \<and> getitem_str q ''answer'' = Inr c
           \<and> s' = answer_feedback (s\<lparr>option_buttons := bs\<rparr>) (py_eq_int u c)
           \<and> list_all (\<lambda>b. \<not> btn_enabled b) bs"
proof -
  let ?dis = "map (\<lambda>btn. btn\<lparr>btn_enabled := False\<rparr>) (option_buttons s)"
  from assms obtain q c ci marked buttons where
    q: "py_getitem (quiz_data s) (current_question_index s) = Inr q"
    and c: "getitem_str q ''answer'' = Inr c"
    and m: "(case py_norm_index (length ?dis) ci of
              None \<Rightarrow> Inl IndexError
            | Some j \<Rightarrow> Inr (?dis[j := (?dis ! j)\<lparr>btn_style := StyleCorrect\<rparr>])) = Inr marked"
    and b: "(if \<not> py_eq_int u c then
                (case py_norm_index (length marked) u of
                   None \<Rightarrow> Inl IndexError
                 | Some j \<Rightarrow> Inr (marked[j := (marked ! j)\<lparr>btn_style := StyleWrong\<rparr>]))
              else Inr marked) = Inr buttons"
    and s': "s' = answer_feedback (s\<lparr>option_buttons := buttons\<rparr>) (py_eq_int u c)"
    unfolding check_answer_def Let_def
    by (elim py_bindE) auto
  have "list_all (\<lambda>b. \<not> btn_enabled b) marked"
    using mark_button_Inr [OF m all_disabled_map] .
  then have "list_all (\<lambda>b. \<not> btn_enabled b) buttons"
    using b mark_button_Inr [where bs = marked and i = u and st = StyleWrong and bs' = buttons]
    by (cases "py_eq_int u c") simp_all
  with q c s' show ?thesis
    by blast
qed


lemma py_getitem_Inr:
  assumes "py_getitem xs i = Inr x" and "0 \<le> i"
  shows "i < int (length xs) \<and> x = xs ! nat i"
  using assms
  by (auto simp: py_getitem_def py_norm_index_def split: if_splits)

lemma music_finished_eq:
  "music_finished s = s\<lparr>music := (case music s of Playing f \<Rightarrow> Idle | m \<Rightarrow> m)\<rparr>"
  by (cases "music s") (simp_all add: music_finished_def)

lemma not_busy_music_finished: "\<not> get_busy (music_finished s)"
  by (cases "music s") (simp_all add: music_finished_def get_busy_def)

lemma next_question_Inr:
  assumes "next_question s = Inr s'"
  shows "quiz_data s' = quiz_data s \<and> score s' = score s
       \<and> current_question_index s' = current_question_index s + 1
       \<and> quiz_wait_timer s' = quiz_wait_timer s \<and> single_shots s' = single_shots s
       \<and> (if current_question_index s + 1 < int (length (quiz_data s))
           then trace s' = trace s @ [ShowQuestion (current_question_index s + 1)]
           else trace s' = trace s @ [ShowResults]
              \<and> option_buttons s' = option_buttons s
              \<and> quiz_result_container s'
              \<and> score_label s' = ''Score: '' @ str_int (score s) @ ''/''
                                  @ str_int (int (length (quiz_data s))))"
proof (cases "current_question_index s + 1 < int (length (quiz_data s))")
  case True
  with assms have "show_question (s\<lparr>current_question_index := current_question_index s + 1\<rparr>) = Inr s'"
    by (simp add: next_question_def Let_def)
  from show_question_Inr [OF this] True show ?thesis
    by auto
next
  case False
  with assms have "show_results (s\<lparr>current_question_index := current_question_index s + 1\<rparr>) = Inr s'"
    by (simp add: next_question_def Let_def)
  from show_results_Inr [OF this] False show ?thesis
    by auto
qed

lemma answer_question_Inr:
  assumes "answer_question s u = Inr s'" and "0 \<le> current_question_index s"
  shows "quiz_data s' = quiz_data s
       \<and> current_question_index s' = current_question_index s + 1
       \<and> current_question_index s < int (length (quiz_data s))
       \<and> score s' = score s
            + (if answer_matches u (quiz_data s ! nat (current_question_index s)) then 1 else 0)
       \<and> (\<not> current_question_index s + 1 < int (length (quiz_data s)) \<longrightarrow>
             quiz_result_container s'
             \<and> score_label s' = ''Score: '' @ str_int (score s') @ ''/''
                                  @ str_int (int (length (quiz_data s))))"
proof -
  from assms(1) obtain s1 where
    ca: "check_answer s u = Inr s1"
    and nx: "(if quiz_wait_timer s1 then check_quiz_audio_finished (music_finished s1)
              else next_question (s1\<lparr>single_shots := single_shots s1 - 1\<rparr>)) = Inr s'"
    unfolding answer_question_def by (elim py_bindE)
  from check_answer_Inr [OF ca] obtain q c bs where
    q: "py_getitem (quiz_data s) (current_question_index s) = Inr q"
    and c: "getitem_str q ''answer'' = Inr c"
    and s1: "s1 = answer_feedback (s\<lparr>option_buttons := bs\<rparr>) (py_eq_int u c)"
    by blast
  from py_getitem_Inr [OF q assms(2)] have
    rng: "current_question_index s < int (length (quiz_data s))"
    and qeq: "q = quiz_data s ! nat (current_question_index s)"
    by simp_all
  have m: "answer_matches u (quiz_data s ! nat (current_question_index s)) = py_eq_int u c"
    using c qeq by (simp add: answer_matches_def)
  have f1: "quiz_data s1 = quiz_data s" "current_question_index s1 = current_question_index s"
    "score s1 = score s + (if py_eq_int u c then 1 else 0)"
    by (simp_all add: s1 answer_feedback_fields)
  obtain s1' where nq: "next_question s1' = Inr s'" and
    f2: "quiz_data s1' = quiz_data s1" "current_question_index s1' = current_question_index s1"
      "score s1' = score s1"
  proof (cases "quiz_wait_timer s1")
    case True
    with nx have "next_question ((music_finished s1)\<lparr>quiz_wait_timer := False\<rparr>) = Inr s'"
      by (simp add: check_quiz_audio_finished_def not_busy_music_finished)
    then show ?thesis
      by (rule that) (simp_all add: music_finished_eq)
  next
    case False
    with nx have "next_question (s1\<lparr>single_shots := single_shots s1 - 1\<rparr>) = Inr s'"
      by simp
    then show ?thesis
      by (rule that) simp_all
  qed
  from next_question_Inr [OF nq] f1 f2 rng m show ?thesis
    by (auto split: if_splits)
qed

lemma answer_questions_Inr:
  assumes "answer_questions s us = Inr s'"
    and "0 \<le> current_question_index s"
    and "current_question_index s + int (length us) = int (length (quiz_data s))"
    and "us \<noteq> []"
  shows "score s' = score s + int (length (filter (\<lambda>(u, q). answer_matches u q)
                        (zip us (drop (nat (current_question_index s)) (quiz_data s)))))
       \<and> quiz_data s' = quiz_data s
       \<and> quiz_result_container s'
       \<and> score_label s' = ''Score: '' @ str_int (score s') @ ''/''
                            @ str_int (int (length (quiz_data s)))"
  using assms
proof (induction us arbitrary: s)
  case Nil
  then show ?case by simp
next
  case (Cons u us)
  from Cons.prems(1) obtain s1 where
    a1: "answer_question s u = Inr s1" and rest: "answer_questions s1 us = Inr s'"
    by (auto elim: py_bindE)
  note f = answer_question_Inr [OF a1 Cons.prems(2)]
  let ?k = "nat (current_question_index s)"
  have k: "?k < length (quiz_data s)"
    using f Cons.prems(2) by linarith
  have dr: "drop ?k (quiz_data s) = quiz_data s ! ?k # drop (Suc ?k) (quiz_data s)"
    using k by (simp add: Cons_nth_drop_Suc)
  have suc: "nat (current_question_index s1) = Suc ?k"
    using f Cons.prems(2) by simp
  show ?case
  proof (cases "us = []")
    case True
    with rest have "s' = s1" by simp
    moreover from True Cons.prems(3)
    have "\<not> current_question_index s + 1 < int (length (quiz_data s))" by simp
    ultimately show ?thesis
      using f True dr by simp
  next
    case False
    have "0 \<le> current_question_index s1"
      using f Cons.prems(2) by simp
    moreover have "current_question_index s1 + int (length us) = int (length (quiz_data s1))"
      using f Cons.prems(3) by simp
    ultimately have ih: "score s' = score s1 + int (length (filter (\<lambda>(u, q). answer_matches u q)
                        (zip us (drop (nat (current_question_index s1)) (quiz_data s1)))))
       \<and> quiz_data s' = quiz_data s1
       \<and> quiz_result_container s'
       \<and> score_label s' = ''Score: '' @ str_int (score s') @ ''/''
                            @ str_int (int (length (quiz_data s1)))"
      using Cons.IH [OF rest _ _ False] by blast
    then show ?thesis
      using f dr suc by simp
  qed
qed

lemma on_quiz_ready_Inr:
  assumes "on_quiz_ready s data = Inr s1"
  shows "quiz_data s1 = data \<and> current_question_index s1 = 0 \<and> score s1 = 0 \<and> data \<noteq> []
       \<and> trace s1 = trace s @ [ShowQuestion 0]
       \<and> quiz_wait_timer s1 = quiz_wait_timer s \<and> single_shots s1 = single_shots s"
proof -
  from show_question_Inr [OF assms [unfolded on_quiz_ready_def]]
  obtain qt bs q where
    "s1 = s\<lparr>quiz_data := data, current_question_index := 0, score := 0, quiz_loading_lbl := [],
             quiz_setup_widget := False, quiz_active_container := True,
             progress_label := ''Question '' @ str_int (0 + 1) @ ''/'' @ str_int (int (length data)),
             question_label := qt, option_buttons := bs,
             trace := trace s @ [ShowQuestion 0]\<rparr>"
    and "py_getitem data 0 = Inr q"
    by auto
  moreover from this(2) have "data \<noteq> []"
    by (auto simp: py_getitem_def py_norm_index_def)
  ultimately show ?thesis
    by simp
qed

text \<open>
  C1. In a quiz session over the quiz data, once the user has answered as many questions as
  the data holds, the results are shown and the score, as kept and as displayed in the
  score label, is the number of questions at which the option index handed to
  \<open>check_answer\<close> equals the answer recorded in the item. The score starts from 0 when the
  data arrives and grows by one at each such answer only.
\<close>

theorem quiz_score_counts_matching_answers:
  assumes "quiz_session s data us = Inr s'" and "length us = length data"
  shows "score s' = int (length (filter (\<lambda>(u, q). answer_matches u q) (zip us data)))
       \<and> score_label s' = ''Score: '' @ str_int (score s') @ ''/'' @ str_int (int (length data))
       \<and> quiz_result_container s'"
proof -
  from assms(1) obtain s1 where
    r: "on_quiz_ready s data = Inr s1" and a: "answer_questions s1 us = Inr s'"
    unfolding quiz_session_def by (elim py_bindE)
  note f = on_quiz_ready_Inr [OF r]
  with assms(2) have "us \<noteq> []" by auto
  from answer_questions_Inr [OF a _ _ this] f assms(2) show ?thesis
    by simp
qed

theorem quiz_score_counts_matching_answers_witness:
  "length [1, 0 :: int] = length example_quiz
   \<and> succeeded (quiz_session example_gui example_quiz [1, 0])
   \<and> score (projr (quiz_session example_gui example_quiz [1, 0])) = 1
   \<and> score_label (projr (quiz_session example_gui example_quiz [1, 0])) = ''Score: 1/2''"
proof -
  have ok: "succeeded (quiz_session example_gui example_quiz [1, 0])"
    by code_simp
  then obtain s' where eq: "quiz_session example_gui example_quiz [1, 0] = Inr s'"
    by (cases "quiz_session example_gui example_quiz [1, 0]") (simp_all add: succeeded_def)
  have len: "length [1, 0 :: int] = length example_quiz"
    by (simp add: example_quiz_def)
  from quiz_score_counts_matching_answers [OF eq len]
  have "score s' = 1" "score_label s' = ''Score: '' @ str_int (score s') @ ''/'' @ str_int 2"
    by (simp_all add: example_quiz_def answer_matches_def)
  moreover have "str_int 1 = ''1''" "str_int 2 = ''2''"
    by (simp_all add: str_int_def str_nat.simps digit_char_def)
  ultimately show ?thesis
    using ok len eq by simp
qed

section \<open>Safety of the subscripts\<close>

lemma access_failed_simps [simp]:
  "access_failed (Inr x) = False"
  "access_failed (Inl IndexError) = True"
  "access_failed (Inl KeyError) = True"
  "access_failed (Inl TypeError) = True"
  "access_failed (Inl ArgTypeError) = False"
  "access_failed (Inl ZeroDivisionError) = False"
  by (simp_all add: access_failed_def)

lemma access_failed_bind:
  "access_failed (py_bind m f) \<longleftrightarrow>
     (case m of Inl e \<Rightarrow> access_failed (Inl e :: py_error + unit) | Inr x \<Rightarrow> access_failed (f x))"
  by (cases m) (auto simp: access_failed_def split: py_error.splits)

lemma as_text_no_access_error: "\<not> access_failed (py_bind (as_text v) f) \<longleftrightarrow>
    (\<forall>t. v = JStr t \<longrightarrow> \<not> access_failed (f t))"
  by (cases v) simp_all

lemma py_getitem_in_range:
  "0 \<le> i \<Longrightarrow> i < int (length xs) \<Longrightarrow> py_getitem xs i = Inr (xs ! nat i)"
  by (simp add: py_getitem_def py_norm_index_def)

lemma set_option_texts_no_access_error:
  "0 \<le> i \<Longrightarrow> i + int (length btns) \<le> int (length opts) \<Longrightarrow>
   \<not> access_failed (set_option_texts (JList opts) i btns)"
proof (induction btns arbitrary: i)
  case Nil
  then show ?case by simp
next
  case (Cons btn btns)
  then have "py_getitem opts i = Inr (opts ! nat i)"
    by (intro py_getitem_in_range) simp_all
  moreover have "\<not> access_failed (set_option_texts (JList opts) (i + 1) btns)"
    using Cons.prems by (intro Cons.IH) simp_all
  ultimately show ?case
    by (cases "opts ! nat i"; cases "set_option_texts (JList opts) (i + 1) btns") simp_all
qed

lemma valid_itemD:
  assumes "valid_item q"
  obtains qt opts a where
    "getitem_str q ''question'' = Inr (JStr qt)"
    "getitem_str q ''options'' = Inr (JList opts)" "4 \<le> length opts"
    "getitem_str q ''answer'' = Inr (JInt a)" "0 \<le> a" "a \<le> 3"
proof (cases q)
  case (JDict kvs)
  with assms show ?thesis
    by (auto split: option.splits json.splits intro: that)
qed (use assms in simp_all)


lemma quiz_item_at:
  assumes "quiz_data_valid data" and "0 \<le> i" and "i < int (length data)"
  shows "py_getitem data i = Inr (data ! nat i) \<and> valid_item (data ! nat i)"
  using assms
  by (simp add: py_getitem_in_range quiz_data_valid_def list_all_length)

lemma show_question_no_access_error:
  assumes "quiz_data_valid (quiz_data s)" and "0 \<le> current_question_index s"
    and "current_question_index s < int (length (quiz_data s))"
    and "length (option_buttons s) = 4"
  shows "\<not> access_failed (show_question s)"
proof -
  let ?q = "quiz_data s ! nat (current_question_index s)"
  from quiz_item_at [OF assms(1-3)] have
    g: "py_getitem (quiz_data s) (current_question_index s) = Inr ?q" and v: "valid_item ?q"
    by simp_all
  from v obtain qt opts a where
    q: "getitem_str ?q ''question'' = Inr (JStr qt)"
    and o: "getitem_str ?q ''options'' = Inr (JList opts)" and l: "4 \<le> length opts"
    by (rule valid_itemD)
  have "\<not> access_failed (set_option_texts (JList opts) 0 (option_buttons s))"
    using l assms(4) by (intro set_option_texts_no_access_error) simp_all
  then show ?thesis
    by (cases "set_option_texts (JList opts) 0 (option_buttons s)")
       (auto simp: show_question_def g q o access_failed_def split: py_error.splits)
qed

lemma check_answer_succeeds:
  assumes "quiz_data_valid (quiz_data s)" and "0 \<le> current_question_index s"
    and "current_question_index s < int (length (quiz_data s))"
    and "length (option_buttons s) = 4" and "0 \<le> u" and "u \<le> 3"
  shows "succeeded (check_answer s u)"
proof -
  let ?q = "quiz_data s ! nat (current_question_index s)"
  from quiz_item_at [OF assms(1-3)] have
    g: "py_getitem (quiz_data s) (current_question_index s) = Inr ?q" and v: "valid_item ?q"
    by simp_all
  from v obtain qt opts a where
    a: "getitem_str ?q ''answer'' = Inr (JInt a)" and r: "0 \<le> a" "a \<le> 3"
    by (rule valid_itemD)
  have na: "py_norm_index 4 a = Some (nat a)" and nu: "py_norm_index 4 u = Some (nat u)"
    using r assms(5,6) by (simp_all add: py_norm_index_def)
  show ?thesis
    by (simp add: check_answer_def g a Let_def assms(4) na nu succeeded_def)
qed

text \<open>
  C10. When every item of the quiz data is a dict with a string under \<open>question\<close>, a list
  of at least four elements under \<open>options\<close> and an integer from 0 to 3 under \<open>answer\<close>, and
  the current question index is a position of the quiz data (so the data is not empty),
  no subscript in \<open>show_question\<close> or \<open>check_answer\<close> fails, for each of the four option
  buttons. The data is used as it arrives: an item with three options makes
  \<open>show_question\<close> fail, and an item with the answer 4 makes \<open>check_answer\<close> fail.
\<close>

theorem quiz_handlers_access_safe:
  assumes "quiz_data_valid (quiz_data s)"
    and "0 \<le> current_question_index s"
    and "current_question_index s < int (length (quiz_data s))"
    and "length (option_buttons s) = 4" and "0 \<le> u" and "u \<le> 3"
  shows "\<not> access_failed (show_question s) \<and> succeeded (check_answer s u)
       \<and> access_failed (on_quiz_ready s
            [JDict [(''question'', JStr ''q''),
                    (''options'', JList [JStr ''a'', JStr ''b'', JStr ''c'']),
                    (''answer'', JInt 0)]])
       \<and> access_failed (py_bind (on_quiz_ready s
            [JDict [(''question'', JStr ''q''),
                    (''options'', JList [JStr ''a'', JStr ''b'', JStr ''c'', JStr ''d'']),
                    (''answer'', JInt 4)]]) (\<lambda>s1. check_answer s1 u))"
proof -
  obtain b0 b1 b2 b3 where bs: "option_buttons s = [b0, b1, b2, b3]"
    using assms(4) by (auto simp: length_Suc_conv numeral_eq_Suc)
  have "access_failed (on_quiz_ready s
            [JDict [(''question'', JStr ''q''),
                    (''options'', JList [JStr ''a'', JStr ''b'', JStr ''c'']),
                    (''answer'', JInt 0)]])"
    by (simp add: on_quiz_ready_def show_question_def py_getitem_def py_norm_index_def bs)
  moreover have "access_failed (py_bind (on_quiz_ready s
            [JDict [(''question'', JStr ''q''),
                    (''options'', JList [JStr ''a'', JStr ''b'', JStr ''c'', JStr ''d'']),
                    (''answer'', JInt 4)]]) (\<lambda>s1. check_answer s1 u))"
    by (simp add: on_quiz_ready_def show_question_def py_getitem_def py_norm_index_def bs
        check_answer_def Let_def)
  ultimately show ?thesis
    using show_question_no_access_error [OF assms(1-4)] check_answer_succeeds [OF assms]
    by simp
qed

theorem quiz_handlers_access_safe_witness:
  "quiz_data_valid (quiz_data (projr (on_quiz_ready example_gui example_quiz)))
   \<and> 0 \<le> current_question_index (projr (on_quiz_ready example_gui example_quiz))
   \<and> current_question_index (projr (on_quiz_ready example_gui example_quiz))
       < int (length (quiz_data (projr (on_quiz_ready example_gui example_quiz))))
   \<and> length (option_buttons (projr (on_quiz_ready example_gui example_quiz))) = 4
   \<and> (0::int) \<le> 2 \<and> (2::int) \<le> 3
   \<and> \<not> access_failed (show_question (projr (on_quiz_ready example_gui example_quiz)))
   \<and> succeeded (check_answer (projr (on_quiz_ready example_gui example_quiz)) 2)"
proof -
  let ?s = "projr (on_quiz_ready example_gui example_quiz)"
  have h1: "quiz_data_valid (quiz_data ?s)" by code_simp
  have h2: "0 \<le> current_question_index ?s" by code_simp
  have h3: "current_question_index ?s < int (length (quiz_data ?s))" by code_simp
  have h4: "length (option_buttons ?s) = 4" by code_simp
  have h5: "(0::int) \<le> 2" and h6: "(2::int) \<le> 3" by simp_all
  from quiz_handlers_access_safe [OF h1 h2 h3 h4 h5 h6] h1 h2 h3 h4
  show ?thesis by simp
qed

text \<open>
  The shape of the items alone is not enough: the empty list has it, and the first
  subscript of \<open>show_question\<close> fails on it.
\<close>

theorem quiz_data_valid_empty_counterexample:
  "quiz_data_valid [] \<and> access_failed (on_quiz_ready example_gui [])
   \<and> show_question example_gui = Inl IndexError"
  by (simp add: quiz_data_valid_def on_quiz_ready_def show_question_def py_getitem_def
      py_norm_index_def example_gui_def TeacherGUI_init_def)

section \<open>The order of a quiz run\<close>














end
